theory Spec2Isabelle
  imports Main
begin

section \<open>BigQuery daily cost monitoring: the model of \<open>cloudrun/main.py\<close>\<close>

text \<open>
  The job reads its configuration from the environment, makes sure a custom metric
  descriptor exists, computes yesterday's UTC window, sums the BigQuery cost per project
  over that window, and is written to turn each row into a gauge series and to write the
  series in batches of 200.

  The two clients (BigQuery, Cloud Monitoring) are the only effects besides logging. The
  model threads a \<open>world\<close> through every function: the trace of client calls made so
  far, each with its outcome, and the log records emitted so far. What a client call
  answers is given by a \<open>backend\<close>: for each call a function of the trace so far and of
  the call's arguments. Nothing is assumed of these functions, so a statement for all
  backends covers every behaviour of the remote services.
\<close>

subsection \<open>Exceptions and log records\<close>

text \<open>
  Every exception below derives from Python's \<open>Exception\<close>, so the handlers
  \<open>except Exception\<close> of the source catch all of them. \<open>ApiError\<close> stands for whatever
  a client call raises; the string is \<open>str(e)\<close>.
\<close>

datatype exn =
    ValueError string
  | OverflowError string
  | AttributeError string
  | ApiError string

fun str_exn :: "exn \<Rightarrow> string" where
  "str_exn (ValueError m) = m"
| "str_exn (OverflowError m) = m"
| "str_exn (AttributeError m) = m"
| "str_exn (ApiError m) = m"

datatype level = INFO | WARNING | ERROR

subsection \<open>Dates and times\<close>

text \<open>
  A \<open>date\<close> is its proleptic Gregorian ordinal, the number \<open>date.toordinal()\<close> returns:
  1 is 0001-01-01 (\<open>date.min\<close>) and 3652059 is 9999-12-31 (\<open>date.max\<close>). A
  \<open>datetime\<close> is a date and a time of day; every datetime of the program carries
  \<open>tzinfo = timezone.utc\<close>, which is therefore not a field.
\<close>

type_synonym date = int

definition MINORDINAL :: int where
  "MINORDINAL = 1"

definition MAXORDINAL :: int where
  "MAXORDINAL = 3652059"

record time_of_day =
  hour :: nat
  minute :: nat
  second :: nat
  microsecond :: nat

record datetime =
  date_of :: date
  time_of :: time_of_day

record timedelta =
  td_days :: int
  td_seconds :: int
  td_microseconds :: int

definition valid_time :: "time_of_day \<Rightarrow> bool" where
  "valid_time t \<longleftrightarrow> hour t < 24 \<and> minute t < 60 \<and> second t < 60 \<and> microsecond t < 1000000"

definition valid_datetime :: "datetime \<Rightarrow> bool" where
  "valid_datetime dt \<longleftrightarrow>
     MINORDINAL \<le> date_of dt \<and> date_of dt \<le> MAXORDINAL \<and> valid_time (time_of dt)"

text \<open>\<open>datetime.time.min\<close>\<close>

definition time_min :: time_of_day where
  "time_min = \<lparr>hour = 0, minute = 0, second = 0, microsecond = 0\<rparr>"

text \<open>\<open>datetime.datetime.combine(d, t, tzinfo=datetime.timezone.utc)\<close>\<close>

definition combine :: "date \<Rightarrow> time_of_day \<Rightarrow> datetime" where
  "combine d t = \<lparr>date_of = d, time_of = t\<rparr>"

text \<open>
  \<open>d - datetime.timedelta(days=n)\<close> on a date: the ordinal moves by \<open>n\<close>, and a result
  outside \<open>date.min .. date.max\<close> raises \<open>OverflowError\<close>.
\<close>

definition date_minus_days :: "date \<Rightarrow> int \<Rightarrow> exn + date" where
  "date_minus_days d n =
     (let ordinal = d - n
      in if MINORDINAL \<le> ordinal \<and> ordinal \<le> MAXORDINAL then Inr ordinal
         else Inl (OverflowError ''date value out of range''))"

definition seconds_of_day :: "time_of_day \<Rightarrow> int" where
  "seconds_of_day t = int (hour t) * 3600 + int (minute t) * 60 + int (second t)"

text \<open>
  The constructor \<open>timedelta(days, seconds, microseconds)\<close> normalises its arguments so
  that \<open>0 \<le> seconds < 86400\<close> and \<open>0 \<le> microseconds < 1000000\<close>.
\<close>

definition mk_timedelta :: "int \<Rightarrow> int \<Rightarrow> int \<Rightarrow> timedelta" where
  "mk_timedelta d s us =
     (let s1 = s + us div 1000000
      in \<lparr>td_days = d + s1 div 86400, td_seconds = s1 mod 86400,
          td_microseconds = us mod 1000000\<rparr>)"

text \<open>\<open>a - b\<close> on two datetimes of the same time zone.\<close>

definition datetime_diff :: "datetime \<Rightarrow> datetime \<Rightarrow> timedelta" where
  "datetime_diff a b =
     mk_timedelta (date_of a - date_of b)
       (seconds_of_day (time_of a) - seconds_of_day (time_of b))
       (int (microsecond (time_of a)) - int (microsecond (time_of b)))"

text \<open>
  \<open>get_previous_day_range\<close>. The clock read \<open>datetime.datetime.now(datetime.timezone.utc)\<close>
  is the argument \<open>now\<close>.
\<close>

definition get_previous_day_range :: "datetime \<Rightarrow> exn + (datetime \<times> datetime)" where
  "get_previous_day_range now =
     (let today = date_of now
      in case date_minus_days today 1 of
           Inl e \<Rightarrow> Inl e
         | Inr yesterday \<Rightarrow>
             (let start_time = combine yesterday time_min;
                  end_time = combine today time_min
              in Inr (start_time, end_time)))"

text \<open>
  A protobuf \<open>Timestamp\<close> and \<open>Timestamp.FromDatetime\<close>: seconds and nanoseconds since
  1970-01-01T00:00:00Z, whose ordinal is 719163.
\<close>

record timestamp =
  ts_seconds :: int
  ts_nanos :: int

definition EPOCH_ORDINAL :: int where
  "EPOCH_ORDINAL = 719163"

definition FromDatetime :: "datetime \<Rightarrow> timestamp" where
  "FromDatetime dt =
     \<lparr>ts_seconds = (date_of dt - EPOCH_ORDINAL) * 86400 + seconds_of_day (time_of dt),
      ts_nanos = int (microsecond (time_of dt)) * 1000\<rparr>"

subsection \<open>Configuration\<close>

text \<open>
  The module reads two environment variables when it is loaded:
  \<open>BILLING_TABLE\<close>, with a default, and \<open>GCP_PROJECT\<close>, without one
  (\<open>os.environ.get\<close> gives \<open>None\<close> for a variable that is not set).
\<close>

record config =
  BILLING_TABLE :: string
  MONITORING_PROJECT_ID :: "string option"

definition DEFAULT_BILLING_TABLE :: string where
  "DEFAULT_BILLING_TABLE = ''your-project.your_dataset.gcp_billing_export_v1_*''"

definition CUSTOM_METRIC_TYPE :: string where
  "CUSTOM_METRIC_TYPE = ''custom.googleapis.com/billing/bigquery/daily_cost''"

definition load_config :: "(string \<rightharpoonup> string) \<Rightarrow> config" where
  "load_config environ =
     \<lparr>BILLING_TABLE =
        (case environ ''BILLING_TABLE'' of None \<Rightarrow> DEFAULT_BILLING_TABLE | Some t \<Rightarrow> t),
      MONITORING_PROJECT_ID = environ ''GCP_PROJECT''\<rparr>"

text \<open>An f-string field \<open>{x}\<close> of an optional string: \<open>None\<close> prints as \<open>None\<close>.\<close>

fun format_opt :: "string option \<Rightarrow> string" where
  "format_opt None = ''None''"
| "format_opt (Some s) = s"

text \<open>\<open>f"projects/{MONITORING_PROJECT_ID}"\<close>\<close>

definition project_name_of :: "config \<Rightarrow> string" where
  "project_name_of cfg = ''projects/'' @ format_opt (MONITORING_PROJECT_ID cfg)"

text \<open>Truthiness of an optional string: \<open>None\<close> and the empty string are false.\<close>

fun truthy :: "string option \<Rightarrow> bool" where
  "truthy None = False"
| "truthy (Some s) = (s \<noteq> [])"

subsection \<open>Messages of the two services\<close>

datatype metric_kind = METRIC_KIND_UNSPECIFIED | GAUGE | DELTA | CUMULATIVE

datatype value_type = VALUE_TYPE_UNSPECIFIED | BOOL | INT64 | DOUBLE | STRING | DISTRIBUTION

datatype label_value_type = LABEL_STRING | LABEL_BOOL | LABEL_INT64

record label_descriptor =
  ld_key :: string
  ld_value_type :: label_value_type
  ld_description :: string

record metric_descriptor =
  md_type :: string
  md_metric_kind :: metric_kind
  md_value_type :: value_type
  md_description :: string
  md_display_name :: string
  md_labels :: "label_descriptor list"

text \<open>
  A point's value is a double. Floating point is outside HOL, so the type of doubles is
  the parameter \<open>'d\<close> and the type of the cost values that BigQuery returns is the
  parameter \<open>'c\<close>; the operations the program applies to them are the fields of
  \<open>numeric\<close>: \<open>float(x)\<close>, \<open>sum(...)\<close> over the costs and the format \<open>{x:.2f}\<close>.
\<close>

record ('c, 'd) numeric =
  float :: "'c \<Rightarrow> 'd"
  sum_costs :: "'c list \<Rightarrow> 'c"
  format_2f :: "'c \<Rightarrow> string"

text \<open>
  The two fields of a \<open>Point\<close> that the program touches. Both are message fields that
  may be unset: \<open>value.double_value\<close> belongs to a oneof, and \<open>interval.end_time\<close> is a
  \<open>Timestamp\<close>, which the \<open>monitoring_v3\<close> wrapper reads as \<open>None\<close> while it is unset.
\<close>

record 'd point =
  pt_double_value :: "'d option"
  pt_end_time :: "timestamp option"

record 'd time_series =
  ts_metric_type :: string
  ts_resource_type :: string
  ts_metric_labels :: "string \<rightharpoonup> string"
  ts_points :: "'d point list"
  ts_metric_kind :: metric_kind
  ts_value_type :: value_type

record 'c row =
  project_id :: string
  daily_cost :: 'c

record query_parameter =
  qp_name :: string
  qp_type :: string
  qp_value :: datetime

text \<open>\<open>bigquery.ScalarQueryParameter(name, type_, value)\<close>\<close>

definition ScalarQueryParameter :: "string \<Rightarrow> string \<Rightarrow> datetime \<Rightarrow> query_parameter" where
  "ScalarQueryParameter n t v = \<lparr>qp_name = n, qp_type = t, qp_value = v\<rparr>"

subsection \<open>Client calls, the backend and the world\<close>

datatype 'd call =
    Get_metric_descriptor string
  | Create_metric_descriptor string metric_descriptor
  | Query string "query_parameter list"
  | Create_time_series string "'d time_series list"

text \<open>An event is a call and its outcome: \<open>None\<close> when it returned, the exception otherwise.\<close>

type_synonym 'd event = "'d call \<times> exn option"

record ('c, 'd) backend =
  client_get_metric_descriptor :: "'d event list \<Rightarrow> string \<Rightarrow> exn option"
  client_create_metric_descriptor ::
    "'d event list \<Rightarrow> string \<Rightarrow> metric_descriptor \<Rightarrow> exn option"
  client_query :: "'d event list \<Rightarrow> string \<Rightarrow> query_parameter list \<Rightarrow> exn + 'c row list"
  client_create_time_series :: "'d event list \<Rightarrow> string \<Rightarrow> 'd time_series list \<Rightarrow> exn option"

text \<open>
  A log record is its level and its message. A message is the f-string of the source,
  kept as a constructor applied to the values interpolated in it; the rendering of the
  text is not modelled.
\<close>

datatype log_msg =
    Starting
  | Descriptor_exists string
  | Descriptor_not_found string
  | Descriptor_created string
  | Descriptor_create_failed exn
  | Querying datetime datetime
  | No_time_series
  | Batch_written nat nat nat
  | Batch_failed exn
  | Failed_projects "string list"
  | No_costs
  | Project_cost string string
  | Processed nat string
  | Function_failed exn

record 'd world =
  trace :: "'d event list"
  logs :: "(level \<times> log_msg) list"

definition logger :: "level \<Rightarrow> log_msg \<Rightarrow> 'd world \<Rightarrow> 'd world" where
  "logger lv m w = w\<lparr>logs := logs w @ [(lv, m)]\<rparr>"

definition called :: "'d call \<Rightarrow> exn option \<Rightarrow> 'd world \<Rightarrow> 'd world" where
  "called c r w = w\<lparr>trace := trace w @ [(c, r)]\<rparr>"

subsection \<open>\<open>ensure_metric_descriptor_exists\<close>\<close>

definition project_label :: label_descriptor where
  "project_label =
     \<lparr>ld_key = ''project_id'', ld_value_type = LABEL_STRING, ld_description = ''GCP Project ID''\<rparr>"

definition descriptor :: metric_descriptor where
  "descriptor =
     \<lparr>md_type = CUSTOM_METRIC_TYPE, md_metric_kind = GAUGE, md_value_type = DOUBLE,
      md_description = ''Daily BigQuery cost per project in USD'',
      md_display_name = ''BigQuery Daily Cost'',
      md_labels = [] @ [project_label]\<rparr>"

text \<open>
  The result is a pair: \<open>Inl e\<close> when the function raises \<open>e\<close>, \<open>Inr ()\<close> when it
  returns, and the world it leaves. Both \<open>try\<close> blocks catch \<open>Exception\<close>: the first
  handler falls through to the creation, the second one only logs.
\<close>

definition ensure_metric_descriptor_exists ::
  "('c, 'd) backend \<Rightarrow> config \<Rightarrow> 'd world \<Rightarrow> (exn + unit) \<times> 'd world" where
  "ensure_metric_descriptor_exists be cfg w =
     (let project_name = project_name_of cfg;
          metric_name = project_name @ ''/metricDescriptors/'' @ CUSTOM_METRIC_TYPE
      in case client_get_metric_descriptor be (trace w) metric_name of
           None \<Rightarrow>
             (Inr (), logger INFO (Descriptor_exists CUSTOM_METRIC_TYPE)
                        (called (Get_metric_descriptor metric_name) None w))
         | Some e \<Rightarrow>
             (let w1 = logger INFO (Descriptor_not_found CUSTOM_METRIC_TYPE)
                         (called (Get_metric_descriptor metric_name) (Some e) w)
              in case client_create_metric_descriptor be (trace w1) project_name descriptor of
                   None \<Rightarrow>
                     (Inr (), logger INFO (Descriptor_created CUSTOM_METRIC_TYPE)
                                (called (Create_metric_descriptor project_name descriptor) None w1))
                 | Some e' \<Rightarrow>
                     (Inr (), logger WARNING (Descriptor_create_failed e')
                                (called (Create_metric_descriptor project_name descriptor)
                                   (Some e') w1))))"

subsection \<open>\<open>fetch_bigquery_costs\<close>\<close>

definition NL :: char where
  "NL = CHR 0x0A"

definition QUOTE :: char where
  "QUOTE = CHR 0x27"

definition BACKTICK :: char where
  "BACKTICK = CHR 0x60"

text \<open>
  The query template is the triple-quoted literal of the source, cut at its only
  replacement field \<open>{table}\<close>; \<open>.format(table=BILLING_TABLE)\<close> puts the table
  reference between the two parts, as it is.
\<close>

definition query_before_table :: string where
  "query_before_table =
     [NL] @ ''        SELECT'' @
     [NL] @ ''            project.id AS project_id,'' @
     [NL] @ ''            SUM(cost) AS daily_cost'' @
     [NL] @ ''        FROM'' @
     [NL] @ ''            '' @ [BACKTICK]"

definition query_after_table :: string where
  "query_after_table =
     [BACKTICK] @
     [NL] @ ''        WHERE'' @
     [NL] @ ''            service.description = '' @ [QUOTE] @ ''BigQuery'' @ [QUOTE] @
     [NL] @ ''            AND usage_start_time >= @start_time'' @
     [NL] @ ''            AND usage_start_time < @end_time'' @
     [NL] @ ''            AND cost > 0'' @
     [NL] @ ''        GROUP BY'' @
     [NL] @ ''            project_id'' @
     [NL] @ ''        HAVING'' @
     [NL] @ ''            daily_cost > 0'' @
     [NL] @ ''    ''"

definition format_query :: "string \<Rightarrow> string" where
  "format_query table = query_before_table @ table @ query_after_table"

text \<open>
  \<open>bq_client.query(query, job_config=job_config)\<close>, \<open>query_job.result()\<close> and
  \<open>list(results)\<close> are one exchange with BigQuery: the call \<open>Query\<close>, which gives the
  rows or raises. There is no handler here, so the exception propagates.
\<close>

definition fetch_bigquery_costs ::
  "('c, 'd) backend \<Rightarrow> config \<Rightarrow> datetime \<Rightarrow> datetime \<Rightarrow> 'd world
     \<Rightarrow> (exn + 'c row list) \<times> 'd world" where
  "fetch_bigquery_costs be cfg start_time end_time w =
     (let query = format_query (BILLING_TABLE cfg);
          query_parameters =
            [ScalarQueryParameter ''start_time'' ''TIMESTAMP'' start_time,
             ScalarQueryParameter ''end_time'' ''TIMESTAMP'' end_time];
          w1 = logger INFO (Querying start_time end_time) w
      in case client_query be (trace w1) query query_parameters of
           Inl e \<Rightarrow> (Inl e, called (Query query query_parameters) (Some e) w1)
         | Inr results \<Rightarrow> (Inr results, called (Query query query_parameters) None w1))"

subsection \<open>\<open>create_time_series\<close>\<close>

text \<open>The fresh messages \<open>monitoring_v3.TimeSeries()\<close> and \<open>monitoring_v3.Point()\<close>.\<close>

definition TimeSeries :: "'d time_series" where
  "TimeSeries =
     \<lparr>ts_metric_type = [], ts_resource_type = [], ts_metric_labels = Map.empty, ts_points = [],
      ts_metric_kind = METRIC_KIND_UNSPECIFIED, ts_value_type = VALUE_TYPE_UNSPECIFIED\<rparr>"

definition Point :: "'d point" where
  "Point = \<lparr>pt_double_value = None, pt_end_time = None\<rparr>"

text \<open>
  \<open>x.CopyFrom(timestamp)\<close>, where \<open>x\<close> is what reading \<open>point.interval.end_time\<close> gave.
  The wrapper gives \<open>None\<close> for an unset field and a \<open>DatetimeWithNanoseconds\<close> for a
  set one. Neither has an attribute \<open>CopyFrom\<close>, so the attribute lookup raises.
\<close>

definition NONETYPE_HAS_NO_COPYFROM :: string where
  "NONETYPE_HAS_NO_COPYFROM =
     [CHR 0x27] @ ''NoneType'' @ [CHR 0x27] @ '' object has no attribute '' @
     [CHR 0x27] @ ''CopyFrom'' @ [CHR 0x27]"

definition DATETIME_HAS_NO_COPYFROM :: string where
  "DATETIME_HAS_NO_COPYFROM =
     [CHR 0x27] @ ''DatetimeWithNanoseconds'' @ [CHR 0x27] @ '' object has no attribute '' @
     [CHR 0x27] @ ''CopyFrom'' @ [CHR 0x27]"

fun CopyFrom :: "timestamp option \<Rightarrow> timestamp \<Rightarrow> exn + unit" where
  "CopyFrom None timestamp = Inl (AttributeError NONETYPE_HAS_NO_COPYFROM)"
| "CopyFrom (Some x) timestamp = Inl (AttributeError DATETIME_HAS_NO_COPYFROM)"

text \<open>
  \<open>create_time_series\<close>, line by line. The point is fresh when line 146 reads its
  \<open>interval.end_time\<close>, so that line raises and the lines after it are not reached.
\<close>

definition create_time_series ::
  "('c, 'd) numeric \<Rightarrow> string \<Rightarrow> 'c \<Rightarrow> timestamp \<Rightarrow> exn + 'd time_series" where
  "create_time_series ops pid cost timestamp =
     (let series = TimeSeries;
          series = series\<lparr>ts_metric_type := CUSTOM_METRIC_TYPE\<rparr>;
          series = series\<lparr>ts_resource_type := ''global''\<rparr>;
          series = series\<lparr>ts_metric_labels := (ts_metric_labels series)(''project_id'' \<mapsto> pid)\<rparr>;
          point = Point;
          point = point\<lparr>pt_double_value := Some (float ops cost)\<rparr>
      in case CopyFrom (pt_end_time point) timestamp of
           Inl e \<Rightarrow> Inl e
         | Inr u \<Rightarrow>
             (let series = series\<lparr>ts_points := [point]\<rparr>;
                  series = series\<lparr>ts_metric_kind := GAUGE\<rparr>;
                  series = series\<lparr>ts_value_type := DOUBLE\<rparr>
              in Inr series))"

subsection \<open>\<open>write_metrics_to_monitoring\<close>\<close>

definition batch_size :: nat where
  "batch_size = 200"

text \<open>
  \<open>ts.metric.labels["project_id"]\<close>: \<open>labels\<close> is a protobuf map of strings, which
  answers the empty string for a key it does not hold.
\<close>

definition label_of :: "'d time_series \<Rightarrow> string \<Rightarrow> string" where
  "label_of ts k = (case ts_metric_labels ts k of None \<Rightarrow> [] | Some v \<Rightarrow> v)"

text \<open>
  The loop \<open>for i in range(0, len(time_series_list), batch_size)\<close>, as a function of the
  index \<open>i\<close>. The slice \<open>time_series_list[i:i + batch_size]\<close> is
  \<open>take batch_size (drop i time_series_list)\<close>. The handler logs twice and re-raises.
\<close>

function write_batches ::
  "('c, 'd) backend \<Rightarrow> string \<Rightarrow> 'd time_series list \<Rightarrow> nat \<Rightarrow> 'd world
     \<Rightarrow> (exn + unit) \<times> 'd world" where
  "write_batches be project_name time_series_list i w =
     (if i < length time_series_list then
        (let batch = take batch_size (drop i time_series_list)
         in case client_create_time_series be (trace w) project_name batch of
              None \<Rightarrow>
                write_batches be project_name time_series_list (i + batch_size)
                  (logger INFO
                     (Batch_written (length batch) (i + length batch) (length time_series_list))
                     (called (Create_time_series project_name batch) None w))
            | Some e \<Rightarrow>
                (let w1 = logger ERROR (Batch_failed e)
                            (called (Create_time_series project_name batch) (Some e) w);
                     failed_projects = map (\<lambda>ts. label_of ts ''project_id'') batch
                 in (Inl e, logger ERROR (Failed_projects failed_projects) w1)))
      else (Inr (), w))"
  by pat_completeness auto
termination
  by (relation "measure (\<lambda>(be, project_name, time_series_list, i, w). length time_series_list - i)")
     (auto simp: batch_size_def)

definition write_metrics_to_monitoring ::
  "('c, 'd) backend \<Rightarrow> config \<Rightarrow> 'd time_series list \<Rightarrow> 'd world \<Rightarrow> (exn + unit) \<times> 'd world" where
  "write_metrics_to_monitoring be cfg time_series_list w =
     (if time_series_list = [] then (Inr (), logger INFO No_time_series w)
      else write_batches be (project_name_of cfg) time_series_list 0 w)"

subsection \<open>\<open>main\<close>\<close>

text \<open>Decimal digits of a natural number, for \<open>{len(time_series_list)}\<close>.\<close>

definition digit_char :: "nat \<Rightarrow> char" where
  "digit_char d = char_of (48 + d)"

function str_nat :: "nat \<Rightarrow> string" where
  "str_nat n = (if n < 10 then [digit_char n] else str_nat (n div 10) @ [digit_char (n mod 10)])"
  by pat_completeness auto
termination
  by (relation "measure id") auto

text \<open>
  The loop \<open>for row in results\<close> of \<open>main\<close>: it logs each row and appends its series to
  \<open>time_series_list\<close>. An exception of \<open>create_time_series\<close> leaves the loop.
\<close>

fun append_series ::
  "('c, 'd) numeric \<Rightarrow> 'c row list \<Rightarrow> timestamp \<Rightarrow> 'd time_series list \<Rightarrow> 'd world
     \<Rightarrow> (exn + 'd time_series list) \<times> 'd world" where
  "append_series ops [] metric_timestamp time_series_list w = (Inr time_series_list, w)"
| "append_series ops (r # results) metric_timestamp time_series_list w =
     (let pid = project_id r;
          cost = daily_cost r;
          w1 = logger INFO (Project_cost pid (format_2f ops cost)) w
      in case create_time_series ops pid cost metric_timestamp of
           Inl e \<Rightarrow> (Inl e, w1)
         | Inr series \<Rightarrow>
             append_series ops results metric_timestamp (time_series_list @ [series]) w1)"

text \<open>
  Lines 204 to 215 of \<open>main\<close>: the timestamp of the window's end and the loop that
  builds \<open>time_series_list\<close> from the empty list.
\<close>

definition build_series ::
  "('c, 'd) numeric \<Rightarrow> 'c row list \<Rightarrow> datetime \<Rightarrow> 'd world
     \<Rightarrow> (exn + 'd time_series list) \<times> 'd world" where
  "build_series ops results end_time w =
     (let metric_timestamp = FromDatetime end_time
      in append_series ops results metric_timestamp [] w)"

text \<open>
  The body of the \<open>try\<close> block of \<open>main\<close>: \<open>Inl e\<close> when it raises \<open>e\<close>, \<open>Inr\<close> of the
  response when it returns one. The request is not read. \<open>now\<close> is what the clock gives
  when \<open>get_previous_day_range\<close> reads it.
\<close>

definition main_try ::
  "('c, 'd) backend \<Rightarrow> ('c, 'd) numeric \<Rightarrow> config \<Rightarrow> datetime \<Rightarrow> 'd world
     \<Rightarrow> (exn + string \<times> nat) \<times> 'd world" where
  "main_try be ops cfg now w =
     (let w0 = logger INFO Starting w
      in if \<not> truthy (MONITORING_PROJECT_ID cfg) then
           (Inl (ValueError ''GCP_PROJECT environment variable not set''), w0)
         else
           case ensure_metric_descriptor_exists be cfg w0 of
             (Inl e, w1) \<Rightarrow> (Inl e, w1)
           | (Inr u, w1) \<Rightarrow>
               (case get_previous_day_range now of
                  Inl e \<Rightarrow> (Inl e, w1)
                | Inr (start_time, end_time) \<Rightarrow>
                    (case fetch_bigquery_costs be cfg start_time end_time w1 of
                       (Inl e, w2) \<Rightarrow> (Inl e, w2)
                     | (Inr results, w2) \<Rightarrow>
                         if results = [] then
                           (Inr (''No data to report'', 200), logger INFO No_costs w2)
                         else
                           (case build_series ops results end_time w2 of
                              (Inl e, w3) \<Rightarrow> (Inl e, w3)
                            | (Inr time_series_list, w3) \<Rightarrow>
                                (case write_metrics_to_monitoring be cfg time_series_list w3 of
                                   (Inl e, w4) \<Rightarrow> (Inl e, w4)
                                 | (Inr u', w4) \<Rightarrow>
                                     (let total_cost = sum_costs ops (map daily_cost results);
                                          n = str_nat (length time_series_list);
                                          w5 = logger INFO
                                                 (Processed (length time_series_list)
                                                    (format_2f ops total_cost)) w4
                                      in (Inr (''Successfully wrote metrics for '' @ n @
                                               '' projects. Total cost: $'' @
                                               format_2f ops total_cost, 200), w5)))))))"

text \<open>\<open>main\<close>: the \<open>try\<close> block and its handler, which turns any exception into a 500.\<close>

definition main ::
  "('c, 'd) backend \<Rightarrow> ('c, 'd) numeric \<Rightarrow> config \<Rightarrow> datetime \<Rightarrow> 'd world
     \<Rightarrow> (string \<times> nat) \<times> 'd world" where
  "main be ops cfg now w =
     (case main_try be ops cfg now w of
        (Inl e, w') \<Rightarrow> ((''Error: '' @ str_exn e, 500), logger ERROR (Function_failed e) w')
      | (Inr response, w') \<Rightarrow> (response, w'))"

subsection \<open>The partition into batches, in the words of the specification\<close>

text \<open>
  The specification asks for contiguous batches of at most \<open>n\<close> points that preserve the
  order: the first \<open>n\<close> elements, then the batches of the rest. This definition is
  written from those words and compared below with the calls that \<open>write_batches\<close> makes.
\<close>

function spec_batches :: "nat \<Rightarrow> 'a list \<Rightarrow> 'a list list" where
  "spec_batches n xs =
     (if n = 0 \<or> xs = [] then [] else take n xs # spec_batches n (drop n xs))"
  by pat_completeness auto
termination
  by (relation "measure (\<lambda>(n, xs). length xs)") auto

text \<open>The name under which \<open>ensure_metric_descriptor_exists\<close> looks the descriptor up.\<close>

definition metric_name_of :: "config \<Rightarrow> string" where
  "metric_name_of cfg = project_name_of cfg @ ''/metricDescriptors/'' @ CUSTOM_METRIC_TYPE"

text \<open>The number of points that a write call carries.\<close>

fun points_of :: "'d event \<Rightarrow> nat" where
  "points_of (Create_time_series pn b, r) = length b"
| "points_of ev = 0"

text \<open>The events that a world has recorded beyond those of an earlier world.\<close>

definition events_since :: "'d world \<Rightarrow> 'd world \<Rightarrow> 'd event list" where
  "events_since w w' = drop (length (trace w)) (trace w')"

fun is_write :: "'d event \<Rightarrow> bool" where
  "is_write (Create_time_series pn b, r) = True"
| "is_write ev = False"

fun is_descriptor_call :: "'d event \<Rightarrow> bool" where
  "is_descriptor_call (Get_metric_descriptor n, r) = True"
| "is_descriptor_call (Create_metric_descriptor pn d, r) = True"
| "is_descriptor_call ev = False"

subsection \<open>Backends and values to run the model on\<close>

text \<open>Costs as whole cents, formatted with two decimals.\<close>

definition cents :: "(nat, nat) numeric" where
  "cents =
     \<lparr>float = (\<lambda>c. c),
      sum_costs = sum_list,
      format_2f = (\<lambda>c. str_nat (c div 100) @ ''.'' @
                         [digit_char (c mod 100 div 10), digit_char (c mod 10)])\<rparr>"

text \<open>A backend that holds the descriptor already, answers the query with \<open>rows\<close> and accepts every write.\<close>

definition accepting :: "'c row list \<Rightarrow> ('c, 'd) backend" where
  "accepting rows =
     \<lparr>client_get_metric_descriptor = (\<lambda>tr n. None),
      client_create_metric_descriptor = (\<lambda>tr pn d. None),
      client_query = (\<lambda>tr q ps. Inr rows),
      client_create_time_series = (\<lambda>tr pn b. None)\<rparr>"

text \<open>
  A backend that stores descriptors: a lookup finds a descriptor once a creation of it
  has succeeded, and a creation of a stored descriptor is refused.
\<close>

fun creates :: "string \<Rightarrow> 'd event \<Rightarrow> bool" where
  "creates n (Create_metric_descriptor pn d, None) = (pn @ ''/metricDescriptors/'' @ md_type d = n)"
| "creates n ev = False"

definition storing :: "'c row list \<Rightarrow> ('c, 'd) backend" where
  "storing rows =
     \<lparr>client_get_metric_descriptor =
        (\<lambda>tr n. if list_ex (creates n) tr then None else Some (ApiError ''404 not found'')),
      client_create_metric_descriptor =
        (\<lambda>tr pn d. if list_ex (creates (pn @ ''/metricDescriptors/'' @ md_type d)) tr
                    then Some (ApiError ''409 already exists'') else None),
      client_query = (\<lambda>tr q ps. Inr rows),
      client_create_time_series = (\<lambda>tr pn b. None)\<rparr>"

text \<open>A backend on which every call fails.\<close>

definition unavailable :: "('c, 'd) backend" where
  "unavailable =
     \<lparr>client_get_metric_descriptor = (\<lambda>tr n. Some (ApiError ''503 unavailable'')),
      client_create_metric_descriptor = (\<lambda>tr pn d. Some (ApiError ''503 unavailable'')),
      client_query = (\<lambda>tr q ps. Inl (ApiError ''503 unavailable'')),
      client_create_time_series = (\<lambda>tr pn b. Some (ApiError ''503 unavailable''))\<rparr>"

text \<open>A backend like \<open>accepting\<close> whose write fails once \<open>k\<close> writes have been made.\<close>

definition failing_write :: "nat \<Rightarrow> 'c row list \<Rightarrow> ('c, 'd) backend" where
  "failing_write k rows =
     \<lparr>client_get_metric_descriptor = (\<lambda>tr n. None),
      client_create_metric_descriptor = (\<lambda>tr pn d. None),
      client_query = (\<lambda>tr q ps. Inr rows),
      client_create_time_series =
        (\<lambda>tr pn b. if length (filter is_write tr) = k
                    then Some (ApiError ''500 internal error'') else None)\<rparr>"

text \<open>A backend like \<open>accepting\<close> whose query fails.\<close>

definition failing_query :: "('c, 'd) backend" where
  "failing_query =
     \<lparr>client_get_metric_descriptor = (\<lambda>tr n. None),
      client_create_metric_descriptor = (\<lambda>tr pn d. None),
      client_query = (\<lambda>tr q ps. Inl (ApiError ''404 table not found'')),
      client_create_time_series = (\<lambda>tr pn b. None)\<rparr>"

definition world0 :: "'d world" where
  "world0 = \<lparr>trace = [], logs = []\<rparr>"

definition config0 :: config where
  "config0 = \<lparr>BILLING_TABLE = ''billing.export.table'', MONITORING_PROJECT_ID = Some ''monitoring''\<rparr>"

definition row_a :: "nat row" where
  "row_a = \<lparr>project_id = ''proj-a'', daily_cost = 1250\<rparr>"

definition row_b :: "nat row" where
  "row_b = \<lparr>project_id = ''proj-b'', daily_cost = 325\<rparr>"

text \<open>
  A series as a caller may pass it to \<open>write_metrics_to_monitoring\<close>: one gauge point of
  12.50 for \<open>proj-a\<close> at 2024-03-10T00:00:00Z.
\<close>

definition series_a :: "nat time_series" where
  "series_a =
     \<lparr>ts_metric_type = CUSTOM_METRIC_TYPE, ts_resource_type = ''global'',
      ts_metric_labels = [''project_id'' \<mapsto> ''proj-a''],
      ts_points = [\<lparr>pt_double_value = Some 1250,
                    pt_end_time = Some \<lparr>ts_seconds = 1710028800, ts_nanos = 0\<rparr>\<rparr>],
      ts_metric_kind = GAUGE, ts_value_type = DOUBLE\<rparr>"

text \<open>2024-03-10T08:30:00Z; the ordinal of 2024-03-10 is 738955.\<close>

definition now0 :: datetime where
  "now0 = \<lparr>date_of = 738955,
            time_of = \<lparr>hour = 8, minute = 30, second = 0, microsecond = 0\<rparr>\<rparr>"

text \<open>201 rows, and a backend whose second write fails.\<close>

definition second_write_fails :: "(nat, nat) backend" where
  "second_write_fails = failing_write 1 (replicate 201 row_a)"

section \<open>Properties\<close>

subsection \<open>The world\<close>

lemma trace_logger: "trace (logger lv m w) = trace w"
  by (simp add: logger_def)

lemma logs_logger: "logs (logger lv m w) = logs w @ [(lv, m)]"
  by (simp add: logger_def)

lemma trace_called: "trace (called c r w) = trace w @ [(c, r)]"
  by (simp add: called_def)

lemma logs_called: "logs (called c r w) = logs w"
  by (simp add: called_def)

lemmas world_simps = trace_logger logs_logger trace_called logs_called

text \<open>
  C8: \<open>write_metrics_to_monitoring\<close> on the empty list returns without raising, having
  logged one record and nothing else: no client call is made, so no write reaches the
  backend.
\<close>

theorem publish_empty_writes_nothing:
  "write_metrics_to_monitoring be cfg [] w = (Inr (), logger INFO No_time_series w)
   \<and> events_since w (snd (write_metrics_to_monitoring be cfg [] w)) = []"
  by (simp add: write_metrics_to_monitoring_def trace_logger events_since_def)

subsection \<open>The descriptor\<close>

lemma ensure_returns: "fst (ensure_metric_descriptor_exists be cfg w) = Inr ()"
  by (simp add: ensure_metric_descriptor_exists_def Let_def split: option.split)

lemma ensure_found:
  assumes "client_get_metric_descriptor be (trace w) (metric_name_of cfg) = None"
  shows "ensure_metric_descriptor_exists be cfg w =
           (Inr (), logger INFO (Descriptor_exists CUSTOM_METRIC_TYPE)
                      (called (Get_metric_descriptor (metric_name_of cfg)) None w))"
  using assms by (simp add: ensure_metric_descriptor_exists_def metric_name_of_def Let_def)

lemma ensure_not_found:
  assumes "client_get_metric_descriptor be (trace w) (metric_name_of cfg) = Some e"
  shows "ensure_metric_descriptor_exists be cfg w =
           (let w1 = logger INFO (Descriptor_not_found CUSTOM_METRIC_TYPE)
                       (called (Get_metric_descriptor (metric_name_of cfg)) (Some e) w);
                r = client_create_metric_descriptor be (trace w1) (project_name_of cfg) descriptor
            in (Inr (), logger (if r = None then INFO else WARNING)
                          (case r of None \<Rightarrow> Descriptor_created CUSTOM_METRIC_TYPE
                                   | Some e' \<Rightarrow> Descriptor_create_failed e')
                          (called (Create_metric_descriptor (project_name_of cfg) descriptor) r w1)))"
  using assms
  by (simp add: ensure_metric_descriptor_exists_def metric_name_of_def Let_def split: option.split)

text \<open>
  C3: \<open>ensure_metric_descriptor_exists\<close> returns without raising on every backend and in
  every world. When the lookup fails, with whatever exception, the creation is attempted
  next. When the creation fails too, the failure is logged as a warning and the function
  still returns. After a call in which the creation succeeded, a second call whose lookup
  finds the descriptor makes that lookup only: no creation.
\<close>

theorem ensure_descriptor_never_raises:
  "fst (ensure_metric_descriptor_exists be cfg w) = Inr ()
   \<and> (\<forall>e. client_get_metric_descriptor be (trace w) (metric_name_of cfg) = Some e \<longrightarrow>
         (\<exists>r. trace (snd (ensure_metric_descriptor_exists be cfg w)) =
                trace w @ [(Get_metric_descriptor (metric_name_of cfg), Some e),
                           (Create_metric_descriptor (project_name_of cfg) descriptor, r)]))
   \<and> (\<forall>e e'. client_get_metric_descriptor be (trace w) (metric_name_of cfg) = Some e \<and>
         client_create_metric_descriptor be
           (trace w @ [(Get_metric_descriptor (metric_name_of cfg), Some e)])
           (project_name_of cfg) descriptor = Some e' \<longrightarrow>
         logs (snd (ensure_metric_descriptor_exists be cfg w)) =
           logs w @ [(INFO, Descriptor_not_found CUSTOM_METRIC_TYPE),
                     (WARNING, Descriptor_create_failed e')])
   \<and> (\<forall>e w1. client_get_metric_descriptor be (trace w) (metric_name_of cfg) = Some e \<and>
         client_create_metric_descriptor be
           (trace w @ [(Get_metric_descriptor (metric_name_of cfg), Some e)])
           (project_name_of cfg) descriptor = None \<and>
         w1 = snd (ensure_metric_descriptor_exists be cfg w) \<and>
         client_get_metric_descriptor be (trace w1) (metric_name_of cfg) = None \<longrightarrow>
         fst (ensure_metric_descriptor_exists be cfg w1) = Inr () \<and>
         trace (snd (ensure_metric_descriptor_exists be cfg w1)) =
           trace w1 @ [(Get_metric_descriptor (metric_name_of cfg), None)] \<and>
         logs (snd (ensure_metric_descriptor_exists be cfg w1)) =
           logs w1 @ [(INFO, Descriptor_exists CUSTOM_METRIC_TYPE)])"
proof (intro conjI allI impI)
  show "fst (ensure_metric_descriptor_exists be cfg w) = Inr ()"
    by (rule ensure_returns)
next
  fix e
  assume "client_get_metric_descriptor be (trace w) (metric_name_of cfg) = Some e"
  then show "\<exists>r. trace (snd (ensure_metric_descriptor_exists be cfg w)) =
                trace w @ [(Get_metric_descriptor (metric_name_of cfg), Some e),
                           (Create_metric_descriptor (project_name_of cfg) descriptor, r)]"
    by (simp add: ensure_not_found Let_def world_simps)
next
  fix e e'
  assume "client_get_metric_descriptor be (trace w) (metric_name_of cfg) = Some e \<and>
         client_create_metric_descriptor be
           (trace w @ [(Get_metric_descriptor (metric_name_of cfg), Some e)])
           (project_name_of cfg) descriptor = Some e'"
  then show "logs (snd (ensure_metric_descriptor_exists be cfg w)) =
           logs w @ [(INFO, Descriptor_not_found CUSTOM_METRIC_TYPE),
                     (WARNING, Descriptor_create_failed e')]"
    by (simp add: ensure_not_found Let_def world_simps)
next
  fix e w1
  assume h: "client_get_metric_descriptor be (trace w) (metric_name_of cfg) = Some e \<and>
         client_create_metric_descriptor be
           (trace w @ [(Get_metric_descriptor (metric_name_of cfg), Some e)])
           (project_name_of cfg) descriptor = None \<and>
         w1 = snd (ensure_metric_descriptor_exists be cfg w) \<and>
         client_get_metric_descriptor be (trace w1) (metric_name_of cfg) = None"
  then have found: "client_get_metric_descriptor be (trace w1) (metric_name_of cfg) = None"
    by blast
  show "fst (ensure_metric_descriptor_exists be cfg w1) = Inr ()"
    by (rule ensure_returns)
  show "trace (snd (ensure_metric_descriptor_exists be cfg w1)) =
           trace w1 @ [(Get_metric_descriptor (metric_name_of cfg), None)]"
    by (simp add: ensure_found [OF found] world_simps)
  show "logs (snd (ensure_metric_descriptor_exists be cfg w1)) =
           logs w1 @ [(INFO, Descriptor_exists CUSTOM_METRIC_TYPE)]"
    by (simp add: ensure_found [OF found] world_simps)
qed


lemma storing_get:
  "client_get_metric_descriptor (storing rows) tr n =
     (if list_ex (creates n) tr then None else Some (ApiError ''404 not found''))"
  by (simp add: storing_def)

lemma storing_create:
  "client_create_metric_descriptor (storing rows) tr pn d =
     (if list_ex (creates (pn @ ''/metricDescriptors/'' @ md_type d)) tr
      then Some (ApiError ''409 already exists'') else None)"
  by (simp add: storing_def)

theorem ensure_descriptor_never_raises_witness:
  "fst (ensure_metric_descriptor_exists (unavailable :: (nat, nat) backend) config0 world0) = Inr ()
   \<and> trace (snd (ensure_metric_descriptor_exists (unavailable :: (nat, nat) backend) config0 world0)) =
       [(Get_metric_descriptor (metric_name_of config0), Some (ApiError ''503 unavailable'')),
        (Create_metric_descriptor (project_name_of config0) descriptor,
         Some (ApiError ''503 unavailable''))]
   \<and> logs (snd (ensure_metric_descriptor_exists (unavailable :: (nat, nat) backend) config0 world0)) =
       [(INFO, Descriptor_not_found CUSTOM_METRIC_TYPE),
        (WARNING, Descriptor_create_failed (ApiError ''503 unavailable''))]
   \<and> trace (snd (ensure_metric_descriptor_exists (storing [] :: (nat, nat) backend) config0
         (snd (ensure_metric_descriptor_exists (storing [] :: (nat, nat) backend) config0 world0)))) =
       [(Get_metric_descriptor (metric_name_of config0), Some (ApiError ''404 not found'')),
        (Create_metric_descriptor (project_name_of config0) descriptor, None),
        (Get_metric_descriptor (metric_name_of config0), None)]"
proof -
  let ?u = "unavailable :: (nat, nat) backend"
  let ?s = "storing [] :: (nat, nat) backend"
  let ?w0 = "world0 :: nat world"
  let ?w1 = "snd (ensure_metric_descriptor_exists ?s config0 ?w0)"
  have u1: "client_get_metric_descriptor ?u (trace ?w0) (metric_name_of config0) =
              Some (ApiError ''503 unavailable'')"
    by (simp add: unavailable_def)
  have u2: "client_create_metric_descriptor ?u
              (trace ?w0 @ [(Get_metric_descriptor (metric_name_of config0),
                             Some (ApiError ''503 unavailable''))])
              (project_name_of config0) descriptor = Some (ApiError ''503 unavailable'')"
    by (simp add: unavailable_def)
  have s1: "client_get_metric_descriptor ?s (trace ?w0) (metric_name_of config0) =
              Some (ApiError ''404 not found'')"
    by (simp add: storing_get world0_def)
  have s2: "client_create_metric_descriptor ?s
              (trace ?w0 @ [(Get_metric_descriptor (metric_name_of config0),
                             Some (ApiError ''404 not found''))])
              (project_name_of config0) descriptor = None"
    by (simp add: storing_create world0_def)
  have t1: "trace ?w1 =
              [(Get_metric_descriptor (metric_name_of config0), Some (ApiError ''404 not found'')),
               (Create_metric_descriptor (project_name_of config0) descriptor, None)]"
    using s1 s2 by (simp add: ensure_not_found Let_def world_simps world0_def)
  have s3: "client_get_metric_descriptor ?s (trace ?w1) (metric_name_of config0) = None"
    by (simp add: t1 storing_get metric_name_of_def descriptor_def)
  note u = ensure_descriptor_never_raises [of ?u config0 ?w0]
  note s = ensure_descriptor_never_raises [of ?s config0 ?w0]
  from u have c1: "fst (ensure_metric_descriptor_exists ?u config0 ?w0) = Inr ()"
    by blast
  from u u1 u2 have c3: "logs (snd (ensure_metric_descriptor_exists ?u config0 ?w0)) =
        logs ?w0 @ [(INFO, Descriptor_not_found CUSTOM_METRIC_TYPE),
                    (WARNING, Descriptor_create_failed (ApiError ''503 unavailable''))]"
    by blast
  have c2: "trace (snd (ensure_metric_descriptor_exists ?u config0 ?w0)) =
       [(Get_metric_descriptor (metric_name_of config0), Some (ApiError ''503 unavailable'')),
        (Create_metric_descriptor (project_name_of config0) descriptor,
         Some (ApiError ''503 unavailable''))]"
    using u1 u2 by (simp add: ensure_not_found Let_def world_simps world0_def)
  from s s1 s2 s3 have "trace (snd (ensure_metric_descriptor_exists ?s config0 ?w1)) =
           trace ?w1 @ [(Get_metric_descriptor (metric_name_of config0), None)]"
    by blast
  then have c4: "trace (snd (ensure_metric_descriptor_exists ?s config0 ?w1)) =
       [(Get_metric_descriptor (metric_name_of config0), Some (ApiError ''404 not found'')),
        (Create_metric_descriptor (project_name_of config0) descriptor, None),
        (Get_metric_descriptor (metric_name_of config0), None)]"
    by (simp add: t1)
  from c1 c2 c3 c4 show ?thesis
    by (simp add: world0_def)
qed

subsection \<open>The window\<close>

lemma date_minus_one: "MINORDINAL < d \<Longrightarrow> d \<le> MAXORDINAL \<Longrightarrow> date_minus_days d 1 = Inr (d - 1)"
  by (simp add: date_minus_days_def Let_def)

lemma window_of:
  assumes "MINORDINAL < date_of now" and "date_of now \<le> MAXORDINAL"
  shows "get_previous_day_range now =
           Inr (combine (date_of now - 1) time_min, combine (date_of now) time_min)"
  using assms by (simp add: get_previous_day_range_def date_minus_one Let_def)

text \<open>
  C6: \<open>now\<close> is what the clock gives when \<open>get_previous_day_range\<close> reads it. A clock
  reads no instant of 0001-01-01, the first day of Python's calendar, so its readings are
  the well-formed instants of a later date. For each of them the function returns a
  window: its end is midnight UTC of the date of \<open>now\<close>, its start is the same time of
  day one calendar day earlier, and its length \<open>end - start\<close> is exactly one day. There is
  no error on these instants, and the result is a function of \<open>now\<close> alone.
\<close>

theorem previous_day_window:
  assumes "valid_datetime now" and "MINORDINAL < date_of now"
  shows "\<exists>start_time end_time.
           get_previous_day_range now = Inr (start_time, end_time)
           \<and> end_time = combine (date_of now) time_min
           \<and> date_of start_time = date_of end_time - 1
           \<and> time_of start_time = time_of end_time
           \<and> datetime_diff end_time start_time =
               \<lparr>td_days = 1, td_seconds = 0, td_microseconds = 0\<rparr>
           \<and> valid_datetime start_time \<and> valid_datetime end_time"
proof -
  from assms have le: "date_of now \<le> MAXORDINAL" and ge: "MINORDINAL \<le> date_of now - 1"
    by (simp_all add: valid_datetime_def)
  have w: "get_previous_day_range now =
             Inr (combine (date_of now - 1) time_min, combine (date_of now) time_min)"
    using assms(2) le by (rule window_of)
  have d: "datetime_diff (combine (date_of now) time_min) (combine (date_of now - 1) time_min) =
             \<lparr>td_days = 1, td_seconds = 0, td_microseconds = 0\<rparr>"
    by (simp add: datetime_diff_def mk_timedelta_def combine_def time_min_def seconds_of_day_def)
  have v: "valid_datetime (combine (date_of now - 1) time_min)"
          "valid_datetime (combine (date_of now) time_min)"
    using assms le ge
    by (simp_all add: valid_datetime_def valid_time_def combine_def time_min_def)
  show ?thesis
    using w d v by (simp add: combine_def)
qed

theorem previous_day_window_witness:
  "valid_datetime now0 \<and> MINORDINAL < date_of now0 \<and>
   get_previous_day_range now0 =
     Inr (\<lparr>date_of = 738954, time_of = time_min\<rparr>, \<lparr>date_of = 738955, time_of = time_min\<rparr>)"
proof -
  have v: "valid_datetime now0"
    by (simp add: valid_datetime_def valid_time_def now0_def MINORDINAL_def MAXORDINAL_def)
  have m: "MINORDINAL < date_of now0"
    by (simp add: now0_def MINORDINAL_def)
  from previous_day_window [OF v m] obtain s e where
    r: "get_previous_day_range now0 = Inr (s, e)" and
    e: "e = combine (date_of now0) time_min" and
    s: "date_of s = date_of e - 1" "time_of s = time_of e"
    by blast
  from e s have "s = \<lparr>date_of = 738954, time_of = time_min\<rparr>"
    by (simp add: combine_def now0_def)
  with r e v m show ?thesis
    by (simp add: combine_def now0_def)
qed

subsection \<open>Configuration and the query\<close>

lemma main_try_unconfigured:
  assumes "\<not> truthy (MONITORING_PROJECT_ID cfg)"
  shows "main_try be ops cfg now w =
           (Inl (ValueError ''GCP_PROJECT environment variable not set''), logger INFO Starting w)"
  using assms by (simp add: main_try_def Let_def)

text \<open>
  C4: when \<open>GCP_PROJECT\<close> is not set, \<open>main\<close> answers 500 with the text of the
  \<open>ValueError\<close>, and no client call is made on the way: no descriptor lookup or
  creation, no query, no write. It logs its start and the failure.
\<close>

theorem main_without_project_id:
  assumes "environ ''GCP_PROJECT'' = None"
  shows "fst (main be ops (load_config environ) now w) =
           (''Error: GCP_PROJECT environment variable not set'', 500)
         \<and> events_since w (snd (main be ops (load_config environ) now w)) = []
         \<and> logs (snd (main be ops (load_config environ) now w)) =
             logs w @ [(INFO, Starting),
                       (ERROR, Function_failed
                                 (ValueError ''GCP_PROJECT environment variable not set''))]"
proof -
  from assms have "\<not> truthy (MONITORING_PROJECT_ID (load_config environ))"
    by (simp add: load_config_def)
  then show ?thesis
    by (simp add: main_def main_try_unconfigured events_since_def world_simps)
qed

theorem main_without_project_id_witness:
  "(Map.empty :: string \<rightharpoonup> string) ''GCP_PROJECT'' = None \<and>
   main (accepting [row_a]) cents (load_config Map.empty) now0 world0 =
     ((''Error: GCP_PROJECT environment variable not set'', 500),
      \<lparr>trace = [],
       logs = [(INFO, Starting),
               (ERROR, Function_failed
                         (ValueError ''GCP_PROJECT environment variable not set''))]\<rparr>)"
proof -
  have h: "(Map.empty :: string \<rightharpoonup> string) ''GCP_PROJECT'' = None"
    by simp
  let ?r = "main (accepting [row_a]) cents (load_config Map.empty) now0 (world0 :: nat world)"
  from main_without_project_id [OF h, of "accepting [row_a]" cents now0 world0]
  have "fst ?r = (''Error: GCP_PROJECT environment variable not set'', 500)"
    and "trace (snd ?r) = []"
    and "logs (snd ?r) = [(INFO, Starting),
               (ERROR, Function_failed
                         (ValueError ''GCP_PROJECT environment variable not set''))]"
    by (simp_all add: events_since_def world0_def)
  then show ?thesis
    by (cases ?r) (simp add: world.equality)
qed

text \<open>
  C9: \<open>fetch_bigquery_costs\<close> makes one query call. Its SQL text is
  \<open>format_query (BILLING_TABLE cfg)\<close>, in which the window does not occur; the window
  bounds travel as the two bound parameters \<open>start_time\<close> and \<open>end_time\<close>. So for two
  windows, in whatever worlds and on whatever backends, the two texts are the same and the
  calls differ in the parameter values only.
\<close>

theorem query_text_independent_of_window:
  "(\<exists>r. events_since w (snd (fetch_bigquery_costs be cfg start_time end_time w)) =
      [(Query (format_query (BILLING_TABLE cfg))
          [ScalarQueryParameter ''start_time'' ''TIMESTAMP'' start_time,
           ScalarQueryParameter ''end_time'' ''TIMESTAMP'' end_time], r)])
   \<and> (\<exists>r'. events_since w' (snd (fetch_bigquery_costs be' cfg start_time' end_time' w')) =
      [(Query (format_query (BILLING_TABLE cfg))
          [ScalarQueryParameter ''start_time'' ''TIMESTAMP'' start_time',
           ScalarQueryParameter ''end_time'' ''TIMESTAMP'' end_time'], r')])"
  by (simp add: fetch_bigquery_costs_def Let_def events_since_def world_simps split: sum.split)

subsection \<open>Building the series\<close>

lemma create_time_series_raises:
  "create_time_series ops pid cost timestamp = Inl (AttributeError NONETYPE_HAS_NO_COPYFROM)"
  by (simp add: create_time_series_def Point_def Let_def)

lemma build_series_Nil: "build_series ops [] end_time w = (Inr [], w)"
  by (simp add: build_series_def)

lemma build_series_raises:
  "build_series ops (r # rows) end_time w =
     (Inl (AttributeError NONETYPE_HAS_NO_COPYFROM),
      logger INFO (Project_cost (project_id r) (format_2f ops (daily_cost r))) w)"
  by (simp add: build_series_def Let_def create_time_series_raises)

lemma build_series_trace: "trace (snd (build_series ops rows end_time w)) = trace w"
  by (cases rows) (simp_all add: build_series_Nil build_series_raises world_simps)

subsection \<open>Batches\<close>

text \<open>
  The recursion equations of the two loops are unconditional, so they are taken out of the
  simplifier and used one step at a time.
\<close>

declare write_batches.simps [simp del] spec_batches.simps [simp del] str_nat.simps [simp del]

lemma spec_batches_Nil: "spec_batches n [] = []"
  by (subst spec_batches.simps) simp

lemma spec_batches_step:
  "0 < n \<Longrightarrow> xs \<noteq> [] \<Longrightarrow> spec_batches n xs = take n xs # spec_batches n (drop n xs)"
  by (subst spec_batches.simps) simp

lemma concat_spec_batches: "0 < n \<Longrightarrow> concat (spec_batches n xs) = xs"
proof (induction n xs rule: spec_batches.induct)
  case (1 n xs)
  show ?case
  proof (cases "xs = []")
    case True
    then show ?thesis by (simp add: spec_batches_Nil)
  next
    case False
    with 1 show ?thesis by (simp add: spec_batches_step)
  qed
qed

lemma spec_batches_sizes:
  "0 < n \<Longrightarrow> b \<in> set (spec_batches n xs) \<Longrightarrow> b \<noteq> [] \<and> length b \<le> n"
proof (induction n xs rule: spec_batches.induct)
  case (1 n xs)
  show ?case
  proof (cases "xs = []")
    case True
    with 1 show ?thesis by (simp add: spec_batches_Nil)
  next
    case False
    with 1 show ?thesis by (auto simp: spec_batches_step)
  qed
qed

lemma spec_batches_450:
  assumes "length xs = 450"
  shows "map length (spec_batches 200 xs) = [200, 200, 50]"
proof -
  from assms have 1: "xs \<noteq> []" by auto
  from assms have 2: "drop 200 xs \<noteq> []" by simp
  from assms have 3: "drop 400 xs \<noteq> []" by simp
  from assms have 4: "drop 600 xs = []" by simp
  show ?thesis
    using assms
    by (simp add: spec_batches_step [OF _ 1] spec_batches_step [OF _ 2]
        spec_batches_step [OF _ 3] 4 spec_batches_Nil)
qed

lemma write_batches_done:
  "length tsl \<le> i \<Longrightarrow> write_batches be pn tsl i w = (Inr (), w)"
  by (subst write_batches.simps) simp

lemma write_batches_ok:
  assumes "i < length tsl"
    and "client_create_time_series be (trace w) pn (take batch_size (drop i tsl)) = None"
  shows "write_batches be pn tsl i w =
           write_batches be pn tsl (i + batch_size)
             (logger INFO
                (Batch_written (length (take batch_size (drop i tsl)))
                   (i + length (take batch_size (drop i tsl))) (length tsl))
                (called (Create_time_series pn (take batch_size (drop i tsl))) None w))"
  using assms by (subst write_batches.simps) (simp add: Let_def)

lemma write_batches_raise:
  assumes "i < length tsl"
    and "client_create_time_series be (trace w) pn (take batch_size (drop i tsl)) = Some e"
  shows "write_batches be pn tsl i w =
           (Inl e,
            logger ERROR
              (Failed_projects (map (\<lambda>ts. label_of ts ''project_id'') (take batch_size (drop i tsl))))
              (logger ERROR (Batch_failed e)
                 (called (Create_time_series pn (take batch_size (drop i tsl))) (Some e) w)))"
  using assms by (subst write_batches.simps) (simp add: Let_def)

lemma batches_drop_step:
  "i < length tsl \<Longrightarrow>
   spec_batches batch_size (drop i tsl) =
     take batch_size (drop i tsl) # spec_batches batch_size (drop (i + batch_size) tsl)"
  by (simp add: spec_batches_step batch_size_def add.commute)

lemma write_batches_returned:
  "write_batches be pn tsl i w = (Inr u, w') \<Longrightarrow>
   trace w' = trace w @ map (\<lambda>b. (Create_time_series pn b, None))
                           (spec_batches batch_size (drop i tsl))"
proof (induction be pn tsl i w rule: write_batches.induct)
  case (1 be pn tsl i w)
  show ?case
  proof (cases "i < length tsl")
    case False
    with "1.prems" show ?thesis
      by (simp add: write_batches_done spec_batches_Nil)
  next
    case True
    show ?thesis
    proof (cases "client_create_time_series be (trace w) pn (take batch_size (drop i tsl))")
      case (Some e)
      with True "1.prems" show ?thesis
        by (simp add: write_batches_raise)
    next
      case None
      with True "1.prems" have
        "write_batches be pn tsl (i + batch_size)
           (logger INFO
              (Batch_written (length (take batch_size (drop i tsl)))
                 (i + length (take batch_size (drop i tsl))) (length tsl))
              (called (Create_time_series pn (take batch_size (drop i tsl))) None w)) = (Inr u, w')"
        by (simp add: write_batches_ok)
      from "1.IH" [OF True refl None this] True show ?thesis
        by (simp add: world_simps batches_drop_step)
    qed
  qed
qed

lemma write_batches_calls:
  "write_batches be pn tsl i w = (r, w') \<Longrightarrow>
   \<exists>evs. trace w' = trace w @ evs \<and>
     (\<forall>ev\<in>set evs. \<exists>b. fst ev = Create_time_series pn b \<and> b \<noteq> [] \<and> length b \<le> batch_size)"
proof (induction be pn tsl i w rule: write_batches.induct)
  case (1 be pn tsl i w)
  show ?case
  proof (cases "i < length tsl")
    case False
    with "1.prems" show ?thesis
      by (simp add: write_batches_done)
  next
    case True
    let ?b = "take batch_size (drop i tsl)"
    from True have b: "?b \<noteq> [] \<and> length ?b \<le> batch_size"
      by (simp add: batch_size_def)
    show ?thesis
    proof (cases "client_create_time_series be (trace w) pn ?b")
      case (Some e)
      with True "1.prems" have "trace w' = trace w @ [(Create_time_series pn ?b, Some e)]"
        by (auto simp: write_batches_raise world_simps)
      with b show ?thesis
        by auto
    next
      case None
      with True "1.prems" have
        "write_batches be pn tsl (i + batch_size)
           (logger INFO (Batch_written (length ?b) (i + length ?b) (length tsl))
              (called (Create_time_series pn ?b) None w)) = (r, w')"
        by (simp add: write_batches_ok)
      from "1.IH" [OF True refl None this] obtain evs where
        evs: "trace w' = trace w @ (Create_time_series pn ?b, None) # evs"
          "\<forall>ev\<in>set evs. \<exists>b. fst ev = Create_time_series pn b \<and> b \<noteq> [] \<and> length b \<le> batch_size"
        by (auto simp: world_simps)
      with b show ?thesis
        by (intro exI [of _ "(Create_time_series pn ?b, None) # evs"]) auto
    qed
  qed
qed



lemma write_batches_accepted:
  "\<forall>j<length (spec_batches batch_size (drop i tsl)).
      client_create_time_series be
        (trace w @ map (\<lambda>b. (Create_time_series pn b, None))
                       (take j (spec_batches batch_size (drop i tsl))))
        pn (spec_batches batch_size (drop i tsl) ! j) = None \<Longrightarrow>
   fst (write_batches be pn tsl i w) = Inr ()
   \<and> trace (snd (write_batches be pn tsl i w)) =
       trace w @ map (\<lambda>b. (Create_time_series pn b, None))
                     (spec_batches batch_size (drop i tsl))"
proof (induction be pn tsl i w rule: write_batches.induct)
  case (1 be pn tsl i w)
  show ?case
  proof (cases "i < length tsl")
    case False
    then show ?thesis
      by (simp add: write_batches_done spec_batches_Nil)
  next
    case True
    let ?b = "take batch_size (drop i tsl)"
    let ?rest = "spec_batches batch_size (drop (i + batch_size) tsl)"
    let ?w1 = "logger INFO (Batch_written (length ?b) (i + length ?b) (length tsl))
                 (called (Create_time_series pn ?b) None w)"
    from True have bs: "spec_batches batch_size (drop i tsl) = ?b # ?rest"
      by (rule batches_drop_step)
    have "0 < length (spec_batches batch_size (drop i tsl))"
      by (simp add: bs)
    from "1.prems" [rule_format, OF this]
    have ok: "client_create_time_series be (trace w) pn ?b = None"
      by (simp add: bs)
    have step: "write_batches be pn tsl i w = write_batches be pn tsl (i + batch_size) ?w1"
      using True ok by (rule write_batches_ok)
    have later: "\<forall>j<length ?rest. client_create_time_series be
                  (trace ?w1 @ map (\<lambda>b. (Create_time_series pn b, None)) (take j ?rest))
                  pn (?rest ! j) = None"
    proof (intro allI impI)
      fix j
      assume "j < length ?rest"
      then have "Suc j < length (spec_batches batch_size (drop i tsl))"
        by (simp add: bs)
      from "1.prems" [rule_format, OF this]
      show "client_create_time_series be
              (trace ?w1 @ map (\<lambda>b. (Create_time_series pn b, None)) (take j ?rest))
              pn (?rest ! j) = None"
        by (simp add: bs world_simps)
    qed
    note ih = "1.IH" [OF True refl ok later]
    show ?thesis
      using ih by (simp add: step bs world_simps)
  qed
qed

subsection \<open>Publishing\<close>

lemma publish_trace_returned:
  assumes "fst (write_metrics_to_monitoring be cfg tsl w) = Inr ()"
  shows "events_since w (snd (write_metrics_to_monitoring be cfg tsl w)) =
           map (\<lambda>b. (Create_time_series (project_name_of cfg) b, None)) (spec_batches 200 tsl)"
proof (cases "tsl = []")
  case True
  then show ?thesis
    by (simp add: write_metrics_to_monitoring_def events_since_def world_simps spec_batches_Nil)
next
  case False
  obtain r w' where res: "write_batches be (project_name_of cfg) tsl 0 w = (r, w')"
    by (cases "write_batches be (project_name_of cfg) tsl 0 w")
  with assms False have "r = Inr ()"
    by (simp add: write_metrics_to_monitoring_def)
  with res have "trace w' = trace w @ map (\<lambda>b. (Create_time_series (project_name_of cfg) b, None))
                           (spec_batches batch_size (drop 0 tsl))"
    by (intro write_batches_returned) simp
  with res False show ?thesis
    by (simp add: write_metrics_to_monitoring_def events_since_def batch_size_def)
qed

lemma publish_calls_bounded:
  "\<forall>ev\<in>set (events_since w (snd (write_metrics_to_monitoring be cfg tsl w))).
     \<exists>b. fst ev = Create_time_series (project_name_of cfg) b \<and> b \<noteq> [] \<and> length b \<le> 200"
proof (cases "tsl = []")
  case True
  then show ?thesis
    by (simp add: write_metrics_to_monitoring_def events_since_def world_simps)
next
  case False
  obtain r w' where res: "write_batches be (project_name_of cfg) tsl 0 w = (r, w')"
    by (cases "write_batches be (project_name_of cfg) tsl 0 w")
  from write_batches_calls [OF res] obtain evs where
    "trace w' = trace w @ evs"
    "\<forall>ev\<in>set evs. \<exists>b. fst ev = Create_time_series (project_name_of cfg) b \<and> b \<noteq> [] \<and>
        length b \<le> batch_size"
    by blast
  with res False show ?thesis
    by (simp add: write_metrics_to_monitoring_def events_since_def batch_size_def)
qed

lemma publish_accepted:
  assumes "\<forall>j<length (spec_batches 200 tsl).
             client_create_time_series be
               (trace w @ map (\<lambda>b. (Create_time_series (project_name_of cfg) b, None))
                              (take j (spec_batches 200 tsl)))
               (project_name_of cfg) (spec_batches 200 tsl ! j) = None"
  shows "fst (write_metrics_to_monitoring be cfg tsl w) = Inr ()"
proof (cases "tsl = []")
  case True
  then show ?thesis
    by (simp add: write_metrics_to_monitoring_def)
next
  case False
  have d: "spec_batches batch_size (drop 0 tsl) = spec_batches 200 tsl"
    by (simp add: batch_size_def)
  from write_batches_accepted [of 0 tsl be w "project_name_of cfg", unfolded d, OF assms] False
  show ?thesis
    by (simp add: write_metrics_to_monitoring_def)
qed

lemma points_of_written:
  "map points_of (map (\<lambda>b. (Create_time_series pn b, None)) bs) = map length bs"
  by (induction bs) simp_all

text \<open>
  C1: every call that \<open>write_metrics_to_monitoring\<close> makes is a write of a non-empty
  batch of at most 200 series, on every backend. When the backend accepts each write as
  it comes, the function returns, and the calls it has made are the writes of the
  batches of the specification, one call per batch and in their order; for a list of 450
  series they carry 200, 200 and 50 series. These batches concatenate to the list, and
  each has at most 200 series. Whenever the function returns, its calls are these writes.
\<close>

theorem publish_batches_of_200:
  "(\<forall>ev\<in>set (events_since w (snd (write_metrics_to_monitoring be cfg tsl w))).
      \<exists>b. fst ev = Create_time_series (project_name_of cfg) b \<and> b \<noteq> [] \<and> length b \<le> 200)
   \<and> ((\<forall>j<length (spec_batches 200 tsl).
          client_create_time_series be
            (trace w @ map (\<lambda>b. (Create_time_series (project_name_of cfg) b, None))
                           (take j (spec_batches 200 tsl)))
            (project_name_of cfg) (spec_batches 200 tsl ! j) = None) \<longrightarrow>
        fst (write_metrics_to_monitoring be cfg tsl w) = Inr ()
        \<and> events_since w (snd (write_metrics_to_monitoring be cfg tsl w)) =
            map (\<lambda>b. (Create_time_series (project_name_of cfg) b, None)) (spec_batches 200 tsl)
        \<and> (length tsl = 450 \<longrightarrow>
             map points_of (events_since w (snd (write_metrics_to_monitoring be cfg tsl w))) =
               [200, 200, 50]))
   \<and> concat (spec_batches 200 tsl) = tsl
   \<and> (\<forall>b\<in>set (spec_batches 200 tsl). b \<noteq> [] \<and> length b \<le> 200)
   \<and> (fst (write_metrics_to_monitoring be cfg tsl w) = Inr () \<longrightarrow>
        events_since w (snd (write_metrics_to_monitoring be cfg tsl w)) =
          map (\<lambda>b. (Create_time_series (project_name_of cfg) b, None)) (spec_batches 200 tsl))
   \<and> (fst (write_metrics_to_monitoring be cfg tsl w) = Inr () \<and> length tsl = 450 \<longrightarrow>
        map points_of (events_since w (snd (write_metrics_to_monitoring be cfg tsl w))) =
          [200, 200, 50])"
proof -
  let ?W = "write_metrics_to_monitoring be cfg tsl w"
  let ?calls = "map (\<lambda>b. (Create_time_series (project_name_of cfg) b, None)) (spec_batches 200 tsl)"
  have bound: "\<forall>ev\<in>set (events_since w (snd ?W)).
      \<exists>b. fst ev = Create_time_series (project_name_of cfg) b \<and> b \<noteq> [] \<and> length b \<le> 200"
    by (rule publish_calls_bounded)
  have returned: "fst ?W = Inr () \<longrightarrow> events_since w (snd ?W) = ?calls"
    by (intro impI publish_trace_returned)
  have sizes: "fst ?W = Inr () \<and> length tsl = 450 \<longrightarrow>
                 map points_of (events_since w (snd ?W)) = [200, 200, 50]"
    by (simp add: publish_trace_returned points_of_written spec_batches_450 del: map_map)
  have accepted: "(\<forall>j<length (spec_batches 200 tsl).
          client_create_time_series be
            (trace w @ map (\<lambda>b. (Create_time_series (project_name_of cfg) b, None))
                           (take j (spec_batches 200 tsl)))
            (project_name_of cfg) (spec_batches 200 tsl ! j) = None) \<longrightarrow>
        fst ?W = Inr () \<and> events_since w (snd ?W) = ?calls
        \<and> (length tsl = 450 \<longrightarrow> map points_of (events_since w (snd ?W)) = [200, 200, 50])"
  proof
    assume "\<forall>j<length (spec_batches 200 tsl).
          client_create_time_series be
            (trace w @ map (\<lambda>b. (Create_time_series (project_name_of cfg) b, None))
                           (take j (spec_batches 200 tsl)))
            (project_name_of cfg) (spec_batches 200 tsl ! j) = None"
    then have r: "fst ?W = Inr ()"
      by (rule publish_accepted)
    with returned sizes show "fst ?W = Inr () \<and> events_since w (snd ?W) = ?calls
        \<and> (length tsl = 450 \<longrightarrow> map points_of (events_since w (snd ?W)) = [200, 200, 50])"
      by blast
  qed
  have whole: "concat (spec_batches 200 tsl) = tsl"
    by (simp add: concat_spec_batches)
  have each: "\<forall>b\<in>set (spec_batches 200 tsl). b \<noteq> [] \<and> length b \<le> 200"
    using spec_batches_sizes [of 200 _ tsl] by simp
  show ?thesis
    by (intro conjI bound accepted whole each returned sizes)
qed

lemma accepting_write: "client_create_time_series (accepting rows) tr pn b = None"
  by (simp add: accepting_def)

theorem publish_batches_of_200_witness:
  "length (replicate 450 series_a) = 450
   \<and> fst (write_metrics_to_monitoring (accepting [] :: (nat, nat) backend) config0
            (replicate 450 series_a) world0) = Inr ()
   \<and> map points_of (trace (snd (write_metrics_to_monitoring (accepting [] :: (nat, nat) backend)
            config0 (replicate 450 series_a) world0))) = [200, 200, 50]"
proof -
  let ?tsl = "replicate 450 series_a"
  let ?be = "accepting [] :: (nat, nat) backend"
  let ?W = "write_metrics_to_monitoring ?be config0 ?tsl world0"
  have a: "\<forall>j<length (spec_batches 200 ?tsl).
          client_create_time_series ?be
            (trace world0 @ map (\<lambda>b. (Create_time_series (project_name_of config0) b, None))
                           (take j (spec_batches 200 ?tsl)))
            (project_name_of config0) (spec_batches 200 ?tsl ! j) = None"
    by (simp add: accepting_write)
  have n: "length ?tsl = 450"
    by simp
  from publish_batches_of_200 [of world0 ?be config0 ?tsl] a n
  have "fst ?W = Inr ()"
    and "map points_of (events_since world0 (snd ?W)) = [200, 200, 50]"
    by blast+
  with n show ?thesis
    by (simp add: events_since_def world0_def)
qed

subsection \<open>The orchestration\<close>

lemma ensure_events:
  "\<exists>evs. trace (snd (ensure_metric_descriptor_exists be cfg w)) = trace w @ evs
         \<and> evs \<noteq> [] \<and> list_all is_descriptor_call evs"
  by (simp add: ensure_metric_descriptor_exists_def Let_def world_simps split: option.split)

lemma fetch_trace:
  "trace (snd (fetch_bigquery_costs be cfg start_time end_time w)) =
     trace w @ [(Query (format_query (BILLING_TABLE cfg))
                   [ScalarQueryParameter ''start_time'' ''TIMESTAMP'' start_time,
                    ScalarQueryParameter ''end_time'' ''TIMESTAMP'' end_time],
                 case fst (fetch_bigquery_costs be cfg start_time end_time w) of
                   Inl e \<Rightarrow> Some e | Inr rows \<Rightarrow> None)]"
  by (simp add: fetch_bigquery_costs_def Let_def world_simps split: sum.split)

text \<open>What \<open>main_try\<close> does once the configuration is there and the window is computed.\<close>

lemma main_try_configured:
  assumes "truthy (MONITORING_PROJECT_ID cfg)"
    and "get_previous_day_range now = Inr (start_time, end_time)"
  shows "main_try be ops cfg now w =
     (case fetch_bigquery_costs be cfg start_time end_time
             (snd (ensure_metric_descriptor_exists be cfg (logger INFO Starting w))) of
        (Inl e, w2) \<Rightarrow> (Inl e, w2)
      | (Inr results, w2) \<Rightarrow>
          if results = [] then (Inr (''No data to report'', 200), logger INFO No_costs w2)
          else
            (Inl (AttributeError NONETYPE_HAS_NO_COPYFROM),
             logger INFO
               (Project_cost (project_id (hd results)) (format_2f ops (daily_cost (hd results))))
               w2))"
proof -
  obtain r w1 where e: "ensure_metric_descriptor_exists be cfg (logger INFO Starting w) = (r, w1)"
    by (cases "ensure_metric_descriptor_exists be cfg (logger INFO Starting w)")
  with ensure_returns [of be cfg "logger INFO Starting w"] have r: "r = Inr ()"
    by simp
  have b: "\<And>results w2. results \<noteq> [] \<Longrightarrow>
             build_series ops results end_time w2 =
               (Inl (AttributeError NONETYPE_HAS_NO_COPYFROM),
                logger INFO
                  (Project_cost (project_id (hd results)) (format_2f ops (daily_cost (hd results))))
                  w2)"
    subgoal for results w2
      by (cases results) (simp_all add: build_series_raises)
    done
  show ?thesis
    using assms
    by (simp add: main_try_def Let_def e r b split: prod.split sum.split)
qed

lemma main_no_rows:
  assumes "truthy (MONITORING_PROJECT_ID cfg)"
    and "get_previous_day_range now = Inr (start_time, end_time)"
    and "fetch_bigquery_costs be cfg start_time end_time
           (snd (ensure_metric_descriptor_exists be cfg (logger INFO Starting w))) = (Inr [], w2)"
  shows "main be ops cfg now w = ((''No data to report'', 200), logger INFO No_costs w2)"
  by (simp add: main_def main_try_configured [OF assms(1,2)] assms(3))

lemma main_query_raises:
  assumes "truthy (MONITORING_PROJECT_ID cfg)"
    and "get_previous_day_range now = Inr (start_time, end_time)"
    and "fetch_bigquery_costs be cfg start_time end_time
           (snd (ensure_metric_descriptor_exists be cfg (logger INFO Starting w))) = (Inl e, w2)"
  shows "main be ops cfg now w =
           ((''Error: '' @ str_exn e, 500), logger ERROR (Function_failed e) w2)"
  by (simp add: main_def main_try_configured [OF assms(1,2)] assms(3))


lemma main_series_raise:
  assumes "truthy (MONITORING_PROJECT_ID cfg)"
    and "get_previous_day_range now = Inr (start_time, end_time)"
    and "fetch_bigquery_costs be cfg start_time end_time
           (snd (ensure_metric_descriptor_exists be cfg (logger INFO Starting w))) = (Inr rows, w2)"
    and "rows \<noteq> []"
  shows "main be ops cfg now w =
           ((''Error: '' @ NONETYPE_HAS_NO_COPYFROM, 500),
            logger ERROR (Function_failed (AttributeError NONETYPE_HAS_NO_COPYFROM))
              (logger INFO
                 (Project_cost (project_id (hd rows)) (format_2f ops (daily_cost (hd rows)))) w2))"
  by (simp add: main_def main_try_configured [OF assms(1,2)] assms(3,4))


lemma descriptor_call_not_write: "is_descriptor_call ev \<Longrightarrow> \<not> is_write ev"
  by (cases ev rule: is_descriptor_call.cases) simp_all

lemma no_write_among_descriptor_calls: "list_all is_descriptor_call evs \<Longrightarrow> \<not> list_ex is_write evs"
  by (induction evs) (auto dest: descriptor_call_not_write)

text \<open>
  C5: when the configuration is there, the window is computed and
  \<open>fetch_bigquery_costs\<close> returns no rows, \<open>main\<close> answers \<open>No data to report\<close> with
  status 200. The world it leaves is the one the query left plus one log record: the
  client calls of the whole run are descriptor calls and the query, so
  \<open>write_metrics_to_monitoring\<close> has not run and no write has been made.
\<close>

theorem main_no_data:
  assumes "truthy (MONITORING_PROJECT_ID cfg)"
    and "get_previous_day_range now = Inr (start_time, end_time)"
    and "fetch_bigquery_costs be cfg start_time end_time
           (snd (ensure_metric_descriptor_exists be cfg (logger INFO Starting w))) = (Inr [], w2)"
  shows "main be ops cfg now w = ((''No data to report'', 200), logger INFO No_costs w2)
         \<and> (\<exists>evs. events_since w (snd (main be ops cfg now w)) =
                     evs @ [(Query (format_query (BILLING_TABLE cfg))
                               [ScalarQueryParameter ''start_time'' ''TIMESTAMP'' start_time,
                                ScalarQueryParameter ''end_time'' ''TIMESTAMP'' end_time], None)]
                  \<and> list_all is_descriptor_call evs)
         \<and> \<not> list_ex is_write (events_since w (snd (main be ops cfg now w)))"
proof -
  let ?w1 = "snd (ensure_metric_descriptor_exists be cfg (logger INFO Starting w))"
  let ?q = "(Query (format_query (BILLING_TABLE cfg))
               [ScalarQueryParameter ''start_time'' ''TIMESTAMP'' start_time,
                ScalarQueryParameter ''end_time'' ''TIMESTAMP'' end_time], None :: exn option)"
  have m: "main be ops cfg now w = ((''No data to report'', 200), logger INFO No_costs w2)"
    using assms by (rule main_no_rows)
  from ensure_events [of be cfg "logger INFO Starting w"] obtain evs where
    evs: "trace ?w1 = trace w @ evs" "list_all is_descriptor_call evs"
    by (auto simp: world_simps)
  from fetch_trace [of be cfg start_time end_time ?w1] assms(3)
  have "trace w2 = trace ?w1 @ [?q]"
    by simp
  with evs m have e: "events_since w (snd (main be ops cfg now w)) = evs @ [?q]"
    by (simp add: events_since_def world_simps)
  from evs(2) have "\<not> list_ex is_write (evs @ [?q])"
    by (simp add: no_write_among_descriptor_calls)
  with m e evs(2) show ?thesis
    by auto
qed

lemma accepting_get: "client_get_metric_descriptor (accepting rows) tr n = None"
  by (simp add: accepting_def)

lemma accepting_query: "client_query (accepting rows) tr q ps = Inr rows"
  by (simp add: accepting_def)

lemma window_now0:
  "get_previous_day_range now0 = Inr (combine 738954 time_min, combine 738955 time_min)"
  using window_of [of now0] by (simp add: now0_def MINORDINAL_def MAXORDINAL_def)

theorem main_no_data_witness:
  "truthy (MONITORING_PROJECT_ID config0)
   \<and> fst (fetch_bigquery_costs (accepting [] :: (nat, nat) backend) config0
            (combine 738954 time_min) (combine 738955 time_min)
            (snd (ensure_metric_descriptor_exists (accepting [] :: (nat, nat) backend) config0
                    (logger INFO Starting world0)))) = Inr []
   \<and> fst (main (accepting []) cents config0 now0 world0) = (''No data to report'', 200)
   \<and> \<not> list_ex is_write (trace (snd (main (accepting []) cents config0 now0 world0)))"
proof -
  let ?be = "accepting [] :: (nat, nat) backend"
  let ?w1 = "snd (ensure_metric_descriptor_exists ?be config0 (logger INFO Starting world0))"
  let ?f = "fetch_bigquery_costs ?be config0 (combine 738954 time_min) (combine 738955 time_min) ?w1"
  have c: "truthy (MONITORING_PROJECT_ID config0)"
    by (simp add: config0_def)
  have q: "fst ?f = Inr []"
    by (simp add: fetch_bigquery_costs_def Let_def accepting_query)
  then have f: "?f = (Inr [], snd ?f)"
    by (cases ?f) simp
  from main_no_data [OF c window_now0 f, of cents]
  have "main ?be cents config0 now0 world0 = ((''No data to report'', 200), logger INFO No_costs (snd ?f))"
    and "\<not> list_ex is_write (events_since world0 (snd (main ?be cents config0 now0 world0)))"
    by blast+
  with c q show ?thesis
    by (simp add: events_since_def world0_def)
qed


lemma main_trace_configured:
  fixes w :: "'d world"
  assumes "truthy (MONITORING_PROJECT_ID cfg)"
    and "get_previous_day_range now = Inr (start_time, end_time)"
  shows "\<exists>evs r rest.
           trace (snd (main be ops cfg now w)) =
             trace w @ evs @
               [(Query (format_query (BILLING_TABLE cfg))
                   [ScalarQueryParameter ''start_time'' ''TIMESTAMP'' start_time,
                    ScalarQueryParameter ''end_time'' ''TIMESTAMP'' end_time], r)] @ rest
           \<and> evs \<noteq> [] \<and> list_all is_descriptor_call evs
           \<and> (\<forall>e. r = Some e \<longrightarrow>
                  rest = [] \<and> fst (main be ops cfg now w) = (''Error: '' @ str_exn e, 500))"
proof -
  let ?w1 = "snd (ensure_metric_descriptor_exists be cfg (logger INFO Starting w))"
  let ?f = "fetch_bigquery_costs be cfg start_time end_time ?w1"
  let ?q = "Query (format_query (BILLING_TABLE cfg))
               [ScalarQueryParameter ''start_time'' ''TIMESTAMP'' start_time,
                ScalarQueryParameter ''end_time'' ''TIMESTAMP'' end_time] ::  'd call"
  from ensure_events [of be cfg "logger INFO Starting w"] obtain evs where
    evs: "trace ?w1 = trace w @ evs" "evs \<noteq> []" "list_all is_descriptor_call evs"
    by (auto simp: world_simps)
  obtain res w2 where f: "?f = (res, w2)"
    by (cases ?f)
  show ?thesis
  proof (cases res)
    case (Inl e)
    with f fetch_trace [of be cfg start_time end_time ?w1]
    have t: "trace w2 = trace ?w1 @ [(?q, Some e)]"
      by simp
    from f Inl have "main be ops cfg now w =
           ((''Error: '' @ str_exn e, 500), logger ERROR (Function_failed e) w2)"
      by (intro main_query_raises [OF assms]) simp
    with t evs have "trace (snd (main be ops cfg now w)) = trace w @ evs @ [(?q, Some e)] @ []
           \<and> evs \<noteq> [] \<and> list_all is_descriptor_call evs
           \<and> (\<forall>e'. Some e = Some e' \<longrightarrow>
                  [] = ([] :: 'd event list)
                  \<and> fst (main be ops cfg now w) = (''Error: '' @ str_exn e', 500))"
      by (simp add: world_simps)
    then show ?thesis
      by (intro exI [of _ evs] exI [of _ "Some e"] exI [of _ "[]"])
  next
    case (Inr rows)
    with f fetch_trace [of be cfg start_time end_time ?w1]
    have t: "trace w2 = trace ?w1 @ [(?q, None)]"
      by simp
    have "trace (snd (main be ops cfg now w)) = trace w2"
    proof (cases "rows = []")
      case True
      with f Inr have "main be ops cfg now w =
          ((''No data to report'', 200), logger INFO No_costs w2)"
        by (intro main_no_rows [OF assms]) simp
      then show ?thesis
        by (simp add: world_simps)
    next
      case False
      from f Inr have "?f = (Inr rows, w2)"
        by simp
      from main_series_raise [OF assms this False, of ops] show ?thesis
        by (simp add: world_simps)
    qed
    with t evs have "trace (snd (main be ops cfg now w)) = trace w @ evs @ [(?q, None)] @ []
           \<and> evs \<noteq> [] \<and> list_all is_descriptor_call evs
           \<and> (\<forall>e'. None = Some e' \<longrightarrow>
                  [] = ([] :: 'd event list)
                  \<and> fst (main be ops cfg now w) = (''Error: '' @ str_exn e', 500))"
      by simp
    then show ?thesis
      by (intro exI [of _ evs] exI [of _ "None"] exI [of _ "[]"])
  qed
qed

text \<open>
  C10: when \<open>BILLING_TABLE\<close> is not set, the configuration holds the placeholder table.
  With \<open>GCP_PROJECT\<close> set and the window computed, \<open>main\<close> does not stop at the
  configuration: it makes its descriptor calls and then issues the query, whose text
  has the placeholder between the two parts of the template. If that query raises,
  nothing is called after it and \<open>main\<close> answers 500 with the text of the exception.
\<close>

theorem missing_billing_table_reaches_the_query:
  assumes "environ ''BILLING_TABLE'' = None"
    and "truthy (environ ''GCP_PROJECT'')"
    and "get_previous_day_range now = Inr (start_time, end_time)"
  shows "BILLING_TABLE (load_config environ) = ''your-project.your_dataset.gcp_billing_export_v1_*''
         \<and> (\<exists>evs r rest.
               trace (snd (main be ops (load_config environ) now w)) =
                 trace w @ evs @
                   [(Query (query_before_table @
                            ''your-project.your_dataset.gcp_billing_export_v1_*'' @
                            query_after_table)
                       [ScalarQueryParameter ''start_time'' ''TIMESTAMP'' start_time,
                        ScalarQueryParameter ''end_time'' ''TIMESTAMP'' end_time], r)] @ rest
               \<and> evs \<noteq> [] \<and> list_all is_descriptor_call evs
               \<and> (\<forall>e. r = Some e \<longrightarrow>
                      rest = [] \<and>
                      fst (main be ops (load_config environ) now w) = (''Error: '' @ str_exn e, 500)))"
proof -
  from assms(1) have b: "BILLING_TABLE (load_config environ) =
                           ''your-project.your_dataset.gcp_billing_export_v1_*''"
    by (simp add: load_config_def DEFAULT_BILLING_TABLE_def)
  from assms(2) have c: "truthy (MONITORING_PROJECT_ID (load_config environ))"
    by (simp add: load_config_def)
  from main_trace_configured [OF c assms(3), of be ops w] b show ?thesis
    by (simp add: format_query_def)
qed


lemma failing_query_get: "client_get_metric_descriptor failing_query tr n = None"
  by (simp add: failing_query_def)

lemma failing_query_query:
  "client_query failing_query tr q ps = Inl (ApiError ''404 table not found'')"
  by (simp add: failing_query_def)

lemma second_outcome:
  assumes "map snd (evs @ (c, r) # rest) = [a, b]" and "evs \<noteq> []"
  shows "r = b"
proof (cases evs)
  case Nil
  with assms(2) show ?thesis by simp
next
  case (Cons x xs)
  with assms(1) have "map snd (xs @ (c, r) # rest) = [b]"
    by simp
  then show ?thesis
    by (cases xs) simp_all
qed

theorem missing_billing_table_reaches_the_query_witness:
  "[''GCP_PROJECT'' \<mapsto> ''monitoring''] ''BILLING_TABLE'' = None
   \<and> truthy ([''GCP_PROJECT'' \<mapsto> ''monitoring''] ''GCP_PROJECT'')
   \<and> get_previous_day_range now0 = Inr (combine 738954 time_min, combine 738955 time_min)
   \<and> map snd (trace (snd (main failing_query cents
                            (load_config [''GCP_PROJECT'' \<mapsto> ''monitoring'']) now0 world0))) =
       [None, Some (ApiError ''404 table not found'')]
   \<and> fst (main failing_query cents (load_config [''GCP_PROJECT'' \<mapsto> ''monitoring'']) now0 world0) =
       (''Error: 404 table not found'', 500)"
proof -
  let ?env = "[''GCP_PROJECT'' \<mapsto> ''monitoring'']"
  let ?cfg = "load_config ?env"
  let ?be = "failing_query :: (nat, nat) backend"
  let ?w0 = "logger INFO Starting (world0 :: nat world)"
  let ?w1 = "snd (ensure_metric_descriptor_exists ?be ?cfg ?w0)"
  let ?s = "combine 738954 time_min"
  let ?e = "combine 738955 time_min"
  let ?f = "fetch_bigquery_costs ?be ?cfg ?s ?e ?w1"
  let ?m = "main ?be cents ?cfg now0 world0"
  have h1: "?env ''BILLING_TABLE'' = None"
    by simp
  have h2: "truthy (?env ''GCP_PROJECT'')"
    by simp
  have c: "truthy (MONITORING_PROJECT_ID ?cfg)"
    by (simp add: load_config_def)
  have t1: "trace ?w1 = [(Get_metric_descriptor (metric_name_of ?cfg), None)]"
    by (simp add: ensure_found failing_query_get world_simps world0_def)
  have fq: "fst ?f = Inl (ApiError ''404 table not found'')"
    by (simp add: fetch_bigquery_costs_def Let_def failing_query_query)
  then have f: "?f = (Inl (ApiError ''404 table not found''), snd ?f)"
    by (cases ?f) simp
  have "trace (snd ?m) = trace (snd ?f)"
    by (simp add: main_query_raises [OF c window_now0 f] world_simps)
  also have "\<dots> = [(Get_metric_descriptor (metric_name_of ?cfg), None),
                   (Query (format_query (BILLING_TABLE ?cfg))
                      [ScalarQueryParameter ''start_time'' ''TIMESTAMP'' ?s,
                       ScalarQueryParameter ''end_time'' ''TIMESTAMP'' ?e],
                    Some (ApiError ''404 table not found''))]"
    using fetch_trace [of ?be ?cfg ?s ?e ?w1] by (simp add: t1 fq)
  finally have tr: "map snd (trace (snd ?m)) = [None, Some (ApiError ''404 table not found'')]"
    by simp
  from missing_billing_table_reaches_the_query [OF h1 h2 window_now0, of ?be cents world0]
  obtain evs r rest where
    eq: "trace (snd ?m) = trace (world0 :: nat world) @ evs @
           [(Query (query_before_table @
                    ''your-project.your_dataset.gcp_billing_export_v1_*'' @ query_after_table)
               [ScalarQueryParameter ''start_time'' ''TIMESTAMP'' ?s,
                ScalarQueryParameter ''end_time'' ''TIMESTAMP'' ?e], r)] @ rest"
    and ne: "evs \<noteq> []"
    and imp: "\<forall>e. r = Some e \<longrightarrow>
                rest = [] \<and> fst ?m = (''Error: '' @ str_exn e, 500)"
    by blast
  from tr eq have "map snd (evs @
           (Query (query_before_table @
                    ''your-project.your_dataset.gcp_billing_export_v1_*'' @ query_after_table)
               [ScalarQueryParameter ''start_time'' ''TIMESTAMP'' ?s,
                ScalarQueryParameter ''end_time'' ''TIMESTAMP'' ?e], r) # rest) =
           [None, Some (ApiError ''404 table not found'')]"
    by (simp add: world0_def)
  from second_outcome [OF this ne] have "r = Some (ApiError ''404 table not found'')" .
  with imp have "fst ?m = (''Error: '' @ str_exn (ApiError ''404 table not found''), 500)"
    by blast
  with h1 h2 tr window_now0 show ?thesis
    by simp
qed


text \<open>
  C7 describes what lines 204 to 215 of \<open>main\<close> are written to do, one series per row in
  the order of the rows, and the code does not do it. \<open>create_time_series\<close> raises
  \<open>AttributeError\<close> at line 146 on every call: the point is fresh, reading its
  \<open>interval.end_time\<close> gives \<open>None\<close>, and \<open>None\<close> has no \<open>CopyFrom\<close>. So the loop leaves with
  that exception at its first row, having logged that row only, and builds no series.
  On the rows \<open>proj-a\<close>, 12.50 and \<open>proj-b\<close>, 3.25 \<open>main\<close> answers 500 with the text of the
  exception, after the descriptor lookup and the query and without any write.
\<close>

theorem series_building_raises:
  "create_time_series ops pid cost timestamp = Inl (AttributeError NONETYPE_HAS_NO_COPYFROM)
   \<and> build_series ops (r # rows) end_time w =
       (Inl (AttributeError NONETYPE_HAS_NO_COPYFROM),
        logger INFO (Project_cost (project_id r) (format_2f ops (daily_cost r))) w)
   \<and> fst (main (accepting [row_a, row_b]) cents config0 now0 world0) =
       (''Error: '' @ NONETYPE_HAS_NO_COPYFROM, 500)
   \<and> trace (snd (main (accepting [row_a, row_b]) cents config0 now0 world0)) =
       [(Get_metric_descriptor (metric_name_of config0), None),
        (Query (format_query (BILLING_TABLE config0))
           [ScalarQueryParameter ''start_time'' ''TIMESTAMP'' (combine 738954 time_min),
            ScalarQueryParameter ''end_time'' ''TIMESTAMP'' (combine 738955 time_min)], None)]
   \<and> \<not> list_ex is_write (trace (snd (main (accepting [row_a, row_b]) cents config0 now0 world0)))"
proof -
  let ?be = "accepting [row_a, row_b] :: (nat, nat) backend"
  let ?w1 = "snd (ensure_metric_descriptor_exists ?be config0 (logger INFO Starting world0))"
  let ?s = "combine 738954 time_min"
  let ?e = "combine 738955 time_min"
  let ?f = "fetch_bigquery_costs ?be config0 ?s ?e ?w1"
  let ?m = "main ?be cents config0 now0 world0"
  have c: "truthy (MONITORING_PROJECT_ID config0)"
    by (simp add: config0_def)
  have fq: "fst ?f = Inr [row_a, row_b]"
    by (simp add: fetch_bigquery_costs_def Let_def accepting_query)
  then have f: "?f = (Inr [row_a, row_b], snd ?f)"
    by (cases ?f) simp
  have t1: "trace ?w1 = [(Get_metric_descriptor (metric_name_of config0), None)]"
    by (simp add: ensure_found accepting_get world_simps world0_def)
  note m = main_series_raise [OF c window_now0 f, of cents]
  from m have m1: "fst ?m = (''Error: '' @ NONETYPE_HAS_NO_COPYFROM, 500)"
    by simp
  from m have "trace (snd ?m) = trace (snd ?f)"
    by (simp add: world_simps)
  with fetch_trace [of ?be config0 ?s ?e ?w1]
  have m2: "trace (snd ?m) =
       [(Get_metric_descriptor (metric_name_of config0), None),
        (Query (format_query (BILLING_TABLE config0))
           [ScalarQueryParameter ''start_time'' ''TIMESTAMP'' ?s,
            ScalarQueryParameter ''end_time'' ''TIMESTAMP'' ?e], None)]"
    by (simp add: t1 fq)
  have m3: "\<not> list_ex is_write (trace (snd ?m))"
    by (simp add: m2)
  show ?thesis
    by (intro conjI create_time_series_raises build_series_raises m1 m2 m3)
qed


lemma second_write_fails_get: "client_get_metric_descriptor second_write_fails tr n = None"
  by (simp add: second_write_fails_def failing_write_def)





end
